theory Spec2Isabelle
  imports
    Main
    "HOL-Library.Word"
    "HOL-Library.List_Lexorder"
    "HOL-Library.Multiset"
    "HOL-Library.Sublist"
begin

unbundle bit_operations_syntax

section \<open>JavaScript values used by the template pipeline\<close>

text \<open>
  A JavaScript string is a sequence of UTF-16 code units. The default \<open>Array.prototype.sort\<close>
  compares strings code unit by code unit, so strings are modelled as lists of 16-bit words,
  ordered lexicographically (a proper prefix is smaller). \<open>js\<close> turns an ASCII literal into
  such a string.
\<close>

type_synonym js_string = "16 word list"

definition js :: "string \<Rightarrow> js_string" where
  "js s = map of_char s"

text \<open>\<open>Array.prototype.join\<close> on an array of strings.\<close>

fun join :: "js_string list \<Rightarrow> js_string \<Rightarrow> js_string" where
  "join [] sep = []"
| "join [x] sep = x"
| "join (x # y # ys) sep = x @ sep @ join (y # ys) sep"

text \<open>
  The text a template literal gives for a number that is a non-negative integer below
  \<open>10^21\<close> (a sub-template index is a small count of nested templates): its decimal digits.
  From \<open>10^21\<close> on JavaScript prints exponent notation, which the model does not follow; no
  statement below depends on the digits of an index.
\<close>

fun Number_toString :: "nat \<Rightarrow> js_string" where
  "Number_toString n =
     (if n < 10 then [of_nat (48 + n)]
      else Number_toString (n div 10) @ [of_nat (48 + n mod 10)])"

declare Number_toString.simps [simp del]

text \<open>
  A JavaScript \<open>Map\<close> keeps its entries in insertion order and has one entry per key: an
  association list. \<open>Map_set\<close> is \<open>Map.prototype.set\<close>: an existing key keeps its place,
  a new key goes to the end.
\<close>

type_synonym ('k, 'v) js_map = "('k \<times> 'v) list"

fun Map_set :: "('k, 'v) js_map \<Rightarrow> 'k \<Rightarrow> 'v \<Rightarrow> ('k, 'v) js_map" where
  "Map_set [] k v = [(k, v)]"
| "Map_set ((k', v') # m) k v =
     (if k' = k then (k, v) # m else (k', v') # Map_set m k v)"

section \<open>Output AST (\<open>output_ast\<close>)\<close>

text \<open>
  The emitting code builds its output with the module \<open>output_ast\<close>, imported as \<open>o\<close>,
  whose source is missing. The node kinds that the code builds are modelled below.
\<close>

text \<open>Modelled from the spec: the values of \<open>o.literal\<close>, missing with \<open>output_ast\<close>.\<close>

datatype LiteralValue = StringLit js_string | NumberLit int | NullLit

text \<open>Modelled from the spec: \<open>o.BinaryOperator\<close>, missing with \<open>output_ast\<close>.\<close>

datatype BinaryOperator = BitwiseAnd

text \<open>
  Modelled from the spec: \<open>o.Expression\<close>, missing with \<open>output_ast\<close>; the results of
  \<open>o.literal\<close>, \<open>o.variable\<close> and \<open>new o.BinaryOperatorExpr\<close>.
\<close>

datatype Expression =
    LiteralExpr LiteralValue
  | ReadVarExpr js_string
  | BinaryOperatorExpr BinaryOperator Expression Expression

text \<open>Modelled from the spec: \<open>o.FnParam\<close>, missing with \<open>output_ast\<close>.\<close>

datatype FnParam = FnParam js_string

text \<open>
  Modelled from the spec: \<open>o.Statement\<close>, missing with \<open>output_ast\<close>. The statement of
  a lowered operation is any value of this type; \<open>IfStmt\<close> is the result of \<open>o.ifStmt\<close>
  and \<open>DeclareFunctionStmt\<close> that of \<open>toDeclStmt\<close>.
\<close>

datatype Statement =
    ExpressionStatement Expression
  | IfStmt Expression "Statement list"
  | DeclareFunctionStmt "js_string option" "FnParam list" "Statement list"

text \<open>
  Modelled from the spec: \<open>o.FunctionExpr\<close>, the result of \<open>o.fn\<close>, missing with
  \<open>output_ast\<close>.
\<close>

record FunctionExpr =
  fn_params :: "FnParam list"
  fn_statements :: "Statement list"
  fn_name :: "js_string option"

text \<open>
  Modelled from the spec: \<open>o.literal\<close>, missing with \<open>output_ast\<close>, applied to a
  \<open>string | null\<close>.
\<close>

definition literal :: "js_string option \<Rightarrow> Expression" where
  "literal s = (case s of None \<Rightarrow> LiteralExpr NullLit | Some t \<Rightarrow> LiteralExpr (StringLit t))"


section \<open>IR data model (\<open>ir\<close>, \<open>compilation\<close>)\<close>

text \<open>
  Modelled from the spec: the flag enum \<open>ir.I18nParamValueFlags\<close>, whose declaration is
  missing. Its four members are taken as parameters: any 32-bit constants (the operands of the
  JavaScript \<open>&\<close>).
\<close>

record I18nParamValueFlags =
  ElementTag :: "32 word"
  TemplateTag :: "32 word"
  OpenTag :: "32 word"
  CloseTag :: "32 word"

text \<open>
  Modelled from the spec: the interface \<open>ir.I18nParamValue\<close>, whose declaration is missing
  (a marker value, bit flags and an optional sub-template index). \<open>raw_value\<close> is the text
  that the template literal gives for the field \<open>value\<close>.
\<close>

record I18nParamValue =
  raw_value :: js_string
  subTemplateIndex :: "nat option"
  flags :: "32 word"

text \<open>
  Modelled from the spec: the extracted-message operation of \<open>ir\<close>, whose declaration is
  missing, with the fields that \<open>formatI18nParams\<close> reads and writes.
\<close>

record ExtractedMessage =
  isRoot :: bool
  params :: "(js_string, I18nParamValue list) js_map"
  postprocessingParams :: "(js_string, I18nParamValue list) js_map"
  formattedParams :: "(js_string, Expression) js_map option"
  formattedPostprocessingParams :: "(js_string, Expression) js_map option"
  needsPostprocessing :: bool

text \<open>
  Modelled from the spec: the enum \<open>ir.OpKind\<close>, whose declaration is missing. It has dozens
  of members; the code tells apart the statement kind, the extracted-message kind and all
  others (\<open>OpKind_Other\<close> with the member's number).
\<close>

datatype OpKind = OpKind_Statement | OpKind_ExtractedMessage | OpKind_Other nat

text \<open>
  Modelled from the spec: the operations of \<open>ir\<close>, whose declarations are missing, a tagged
  union with one variant per kind.
\<close>

datatype Op =
    StatementOp Statement
  | ExtractedMessageOp ExtractedMessage
  | OtherOp nat

text \<open>Modelled from the spec: the field \<open>kind\<close> of an operation, missing with \<open>ir\<close>.\<close>

fun op_kind :: "Op \<Rightarrow> OpKind" where
  "op_kind (StatementOp s) = OpKind_Statement"
| "op_kind (ExtractedMessageOp m) = OpKind_ExtractedMessage"
| "op_kind (OtherOp n) = OpKind_Other n"

type_synonym XrefId = nat

text \<open>
  Modelled from the spec: a compilation unit (view) of the module \<open>compilation\<close>, which is
  missing, with the fields the code reads.
\<close>

record CompilationUnit =
  xref :: XrefId
  parent :: "XrefId option"
  fnName :: "js_string option"
  create :: "Op list"
  update :: "Op list"

text \<open>
  Modelled from the spec: a compilation job of the module \<open>compilation\<close>, which is missing.
  \<open>units\<close> is the job's iterable of units, in iteration order.
\<close>

record CompilationJob =
  root :: CompilationUnit
  units :: "CompilationUnit list"


section \<open>Phase \<open>format_i18n_params\<close>\<close>

definition ESCAPE :: js_string where
  "ESCAPE = [0xFFFD]"

definition ELEMENT_MARKER :: js_string where
  "ELEMENT_MARKER = js ''#''"

definition TEMPLATE_MARKER :: js_string where
  "TEMPLATE_MARKER = js ''*''"

definition TAG_CLOSE_MARKER :: js_string where
  "TAG_CLOSE_MARKER = js ''/''"

definition CONTEXT_MARKER :: js_string where
  "CONTEXT_MARKER = js '':''"

definition LIST_START_MARKER :: js_string where
  "LIST_START_MARKER = js ''[''"

definition LIST_END_MARKER :: js_string where
  "LIST_END_MARKER = js '']''"

definition LIST_DELIMITER :: js_string where
  "LIST_DELIMITER = js ''|''"

text \<open>\<open>formatValue\<close>: a flag test \<open>value.flags & X\<close> is truthy when the result is not 0.\<close>

definition formatValue :: "I18nParamValueFlags \<Rightarrow> I18nParamValue \<Rightarrow> js_string" where
  "formatValue F v =
     (let tagMarker =
            (if flags v AND ElementTag F \<noteq> 0 then ELEMENT_MARKER
             else if flags v AND TemplateTag F \<noteq> 0 then TEMPLATE_MARKER
             else []);
          closeMarker =
            (if tagMarker \<noteq> []
             then (if flags v AND CloseTag F \<noteq> 0 then TAG_CLOSE_MARKER else [])
             else []);
          context =
            (case subTemplateIndex v of
               None \<Rightarrow> []
             | Some i \<Rightarrow> CONTEXT_MARKER @ Number_toString i)
      in if flags v AND OpenTag F \<noteq> 0 \<and> flags v AND CloseTag F \<noteq> 0
         then ESCAPE @ tagMarker @ raw_value v @ context @ ESCAPE @
              ESCAPE @ closeMarker @ tagMarker @ raw_value v @ context @ ESCAPE
         else ESCAPE @ closeMarker @ tagMarker @ raw_value v @ context @ ESCAPE)"

text \<open>
  The parts of a serialized value, used to state what \<open>formatValue\<close> returns: the tag marker
  of a value (element before template, empty without either flag), its sub-template-index
  suffix, and the open form of a tag.
\<close>

definition tag_marker_of :: "I18nParamValueFlags \<Rightarrow> I18nParamValue \<Rightarrow> js_string" where
  "tag_marker_of F v =
     (if flags v AND ElementTag F \<noteq> 0 then ELEMENT_MARKER
      else if flags v AND TemplateTag F \<noteq> 0 then TEMPLATE_MARKER
      else [])"

definition context_suffix_of :: "I18nParamValue \<Rightarrow> js_string" where
  "context_suffix_of v =
     (case subTemplateIndex v of None \<Rightarrow> [] | Some i \<Rightarrow> CONTEXT_MARKER @ Number_toString i)"

definition open_form :: "I18nParamValueFlags \<Rightarrow> I18nParamValue \<Rightarrow> js_string" where
  "open_form F v = ESCAPE @ tag_marker_of F v @ raw_value v @ context_suffix_of v @ ESCAPE"

text \<open>
  The close form as the description of the format words it: escape, close marker, tag marker,
  raw value, suffix, escape, with the close marker always there.
\<close>

definition close_form_as_stated :: "I18nParamValueFlags \<Rightarrow> I18nParamValue \<Rightarrow> js_string" where
  "close_form_as_stated F v =
     ESCAPE @ TAG_CLOSE_MARKER @ tag_marker_of F v @ raw_value v @ context_suffix_of v @ ESCAPE"

text \<open>
  The close form as the code builds it: the close marker stands only where there is a tag
  marker (the guard \<open>if (tagMarker !== '')\<close>).
\<close>

definition close_form :: "I18nParamValueFlags \<Rightarrow> I18nParamValue \<Rightarrow> js_string" where
  "close_form F v =
     ESCAPE @ (if tag_marker_of F v = [] then [] else TAG_CLOSE_MARKER) @ tag_marker_of F v @
     raw_value v @ context_suffix_of v @ ESCAPE"

text \<open>\<open>formatParamValues\<close>: \<open>None\<close> is the \<open>null\<close> returned for an empty array.\<close>

definition formatParamValues ::
    "I18nParamValueFlags \<Rightarrow> I18nParamValue list \<Rightarrow> js_string option" where
  "formatParamValues F vals =
     (if length vals = 0 then None
      else
        (let serializedValues = map (formatValue F) vals
         in Some (if length serializedValues = 1 then hd serializedValues
                  else LIST_START_MARKER @ join serializedValues LIST_DELIMITER @
                       LIST_END_MARKER)))"

text \<open>
  \<open>[...params].sort()\<close> has no comparison function: the entries, which are two-element
  arrays \<open>[placeholder, placeholderValues]\<close>, are ordered by their string conversions. An
  array converts to its elements' conversions joined by a comma, and a parameter value (a plain
  object) converts to \<open>[object Object]\<close>. The sort is stable.
\<close>

definition entry_toString :: "js_string \<times> I18nParamValue list \<Rightarrow> js_string" where
  "entry_toString e =
     join [fst e, join (map (\<lambda>v. js ''[object Object]'') (snd e)) (js '','')] (js '','')"

definition Array_sort ::
    "(js_string \<times> I18nParamValue list) list \<Rightarrow> (js_string \<times> I18nParamValue list) list" where
  "Array_sort es = sort_key entry_toString es"

definition formatParams ::
    "I18nParamValueFlags \<Rightarrow> (js_string, I18nParamValue list) js_map \<Rightarrow>
     (js_string, Expression) js_map" where
  "formatParams F ps =
     fold (\<lambda>(placeholder, placeholderValues) result.
             (case formatParamValues F placeholderValues of
                None \<Rightarrow> result
              | Some serializedValues \<Rightarrow>
                  Map_set result placeholder
                    (literal (formatParamValues F placeholderValues))))
          (Array_sort ps) []"

text \<open>
  What the loop of \<open>formatParams\<close> adds for a list of entries with distinct keys: one
  entry for each key whose value list is not empty, in the order of the list.
\<close>

definition formatted_entries ::
    "I18nParamValueFlags \<Rightarrow> (js_string \<times> I18nParamValue list) list \<Rightarrow>
     (js_string, Expression) js_map" where
  "formatted_entries F es =
     map (\<lambda>(k, vs). (k, literal (formatParamValues F vs))) (filter (\<lambda>(k, vs). vs \<noteq> []) es)"

text \<open>The body of the two inner \<open>if\<close>s of \<open>formatI18nParams\<close>, for one create operation.\<close>

definition formatI18nParams_message ::
    "I18nParamValueFlags \<Rightarrow> ExtractedMessage \<Rightarrow> ExtractedMessage" where
  "formatI18nParams_message F m =
     m\<lparr>formattedParams := Some (formatParams F (params m)),
       formattedPostprocessingParams := Some (formatParams F (postprocessingParams m)),
       needsPostprocessing :=
         fold (\<lambda>(param, vals) np. if length vals > 1 then True else np)
              (params m) (length (postprocessingParams m) > 0)\<rparr>"

fun formatI18nParams_op :: "I18nParamValueFlags \<Rightarrow> Op \<Rightarrow> Op" where
  "formatI18nParams_op F (ExtractedMessageOp m) =
     (if isRoot m then ExtractedMessageOp (formatI18nParams_message F m)
      else ExtractedMessageOp m)"
| "formatI18nParams_op F (StatementOp s) = StatementOp s"
| "formatI18nParams_op F (OtherOp n) = OtherOp n"

text \<open>
  \<open>formatI18nParams\<close> walks \<open>job.units\<close> and changes the operations in place; the model
  takes the job and returns it after the phase. The root view is one of the units, the same
  object, so the copy that the model holds in \<open>root\<close> is changed alike.
\<close>

definition formatI18nParams_unit ::
    "I18nParamValueFlags \<Rightarrow> CompilationUnit \<Rightarrow> CompilationUnit" where
  "formatI18nParams_unit F unit = unit\<lparr>create := map (formatI18nParams_op F) (create unit)\<rparr>"

definition formatI18nParams :: "I18nParamValueFlags \<Rightarrow> CompilationJob \<Rightarrow> CompilationJob" where
  "formatI18nParams F job =
     job\<lparr>units := map (formatI18nParams_unit F) (units job),
         root := formatI18nParams_unit F (root job)\<rparr>"

section \<open>The phase pipeline (\<open>emit\<close>)\<close>

text \<open>
  Modelled from the spec: the enum \<open>CompilationJobKind\<close> of the module \<open>compilation\<close>,
  which is missing.
\<close>

datatype CompilationJobKind = Tmpl | Host | Both

text \<open>
  The phase functions are imported from modules of their own, one per phase, of which all but
  \<open>format_i18n_params\<close> are missing. A phase function is named by a constructor, and what
  calling it does to a job is a parameter of \<open>transform\<close>.
\<close>

datatype PhaseFn =
    P_removeContentSelectors |
    P_parseHostStyleProperties |
    P_emitNamespaceChanges |
    P_specializeStyleBindings |
    P_specializeBindings |
    P_propagateI18nBlocks |
    P_wrapI18nIcus |
    P_extractAttributes |
    P_parseExtractedStyles |
    P_removeEmptyBindings |
    P_collapseSingletonInterpolations |
    P_orderOps |
    P_generateConditionalExpressions |
    P_createPipes |
    P_configureDeferInstructions |
    P_extractI18nText |
    P_extractI18nICUs |
    P_applyI18nExpressions |
    P_createVariadicPipes |
    P_generatePureLiteralStructures |
    P_generateProjectionDefs |
    P_generateVariables |
    P_saveAndRestoreView |
    P_deleteAnyCasts |
    P_resolveDollarEvent |
    P_generateRepeaterDerivedVars |
    P_generateTrackVariables |
    P_resolveNames |
    P_resolveDeferTargetNames |
    P_optimizeTrackFns |
    P_resolveContexts |
    P_resolveSanitizers |
    P_liftLocalRefs |
    P_generateNullishCoalesceExpressions |
    P_expandSafeReads |
    P_generateTemporaryVariables |
    P_allocateSlots |
    P_extractI18nMessages |
    P_resolveI18nElementPlaceholders |
    P_resolveI18nExpressionPlaceholders |
    P_propogateI18nPlaceholders |
    P_formatI18nParams |
    P_generateTrackFns |
    P_collectI18nConsts |
    P_collectConstExpressions |
    P_collectElementConsts |
    P_assignI18nSlotDependencies |
    P_countVariables |
    P_generateAdvance |
    P_optimizeVariables |
    P_nameFunctionsAndVariables |
    P_mergeNextContextExpressions |
    P_generateNgContainerOps |
    P_collapseEmptyInstructions |
    P_disableBindings |
    P_extractPureFunctions |
    P_reify |
    P_chain

record Phase =
  kind :: CompilationJobKind
  fn :: PhaseFn

definition phases :: "Phase list" where
  "phases =
    [\<lparr>kind = Tmpl, fn = P_removeContentSelectors\<rparr>,
     \<lparr>kind = Host, fn = P_parseHostStyleProperties\<rparr>,
     \<lparr>kind = Tmpl, fn = P_emitNamespaceChanges\<rparr>,
     \<lparr>kind = Both, fn = P_specializeStyleBindings\<rparr>,
     \<lparr>kind = Both, fn = P_specializeBindings\<rparr>,
     \<lparr>kind = Tmpl, fn = P_propagateI18nBlocks\<rparr>,
     \<lparr>kind = Tmpl, fn = P_wrapI18nIcus\<rparr>,
     \<lparr>kind = Both, fn = P_extractAttributes\<rparr>,
     \<lparr>kind = Both, fn = P_parseExtractedStyles\<rparr>,
     \<lparr>kind = Tmpl, fn = P_removeEmptyBindings\<rparr>,
     \<lparr>kind = Both, fn = P_collapseSingletonInterpolations\<rparr>,
     \<lparr>kind = Both, fn = P_orderOps\<rparr>,
     \<lparr>kind = Tmpl, fn = P_generateConditionalExpressions\<rparr>,
     \<lparr>kind = Tmpl, fn = P_createPipes\<rparr>,
     \<lparr>kind = Tmpl, fn = P_configureDeferInstructions\<rparr>,
     \<lparr>kind = Tmpl, fn = P_extractI18nText\<rparr>,
     \<lparr>kind = Tmpl, fn = P_extractI18nICUs\<rparr>,
     \<lparr>kind = Tmpl, fn = P_applyI18nExpressions\<rparr>,
     \<lparr>kind = Tmpl, fn = P_createVariadicPipes\<rparr>,
     \<lparr>kind = Both, fn = P_generatePureLiteralStructures\<rparr>,
     \<lparr>kind = Tmpl, fn = P_generateProjectionDefs\<rparr>,
     \<lparr>kind = Tmpl, fn = P_generateVariables\<rparr>,
     \<lparr>kind = Tmpl, fn = P_saveAndRestoreView\<rparr>,
     \<lparr>kind = Tmpl, fn = P_deleteAnyCasts\<rparr>,
     \<lparr>kind = Both, fn = P_resolveDollarEvent\<rparr>,
     \<lparr>kind = Tmpl, fn = P_generateRepeaterDerivedVars\<rparr>,
     \<lparr>kind = Tmpl, fn = P_generateTrackVariables\<rparr>,
     \<lparr>kind = Both, fn = P_resolveNames\<rparr>,
     \<lparr>kind = Tmpl, fn = P_resolveDeferTargetNames\<rparr>,
     \<lparr>kind = Tmpl, fn = P_optimizeTrackFns\<rparr>,
     \<lparr>kind = Both, fn = P_resolveContexts\<rparr>,
     \<lparr>kind = Tmpl, fn = P_resolveSanitizers\<rparr>,
     \<lparr>kind = Tmpl, fn = P_liftLocalRefs\<rparr>,
     \<lparr>kind = Both, fn = P_generateNullishCoalesceExpressions\<rparr>,
     \<lparr>kind = Both, fn = P_expandSafeReads\<rparr>,
     \<lparr>kind = Both, fn = P_generateTemporaryVariables\<rparr>,
     \<lparr>kind = Tmpl, fn = P_allocateSlots\<rparr>,
     \<lparr>kind = Tmpl, fn = P_extractI18nMessages\<rparr>,
     \<lparr>kind = Tmpl, fn = P_resolveI18nElementPlaceholders\<rparr>,
     \<lparr>kind = Tmpl, fn = P_resolveI18nExpressionPlaceholders\<rparr>,
     \<lparr>kind = Tmpl, fn = P_propogateI18nPlaceholders\<rparr>,
     \<lparr>kind = Tmpl, fn = P_formatI18nParams\<rparr>,
     \<lparr>kind = Tmpl, fn = P_generateTrackFns\<rparr>,
     \<lparr>kind = Tmpl, fn = P_collectI18nConsts\<rparr>,
     \<lparr>kind = Tmpl, fn = P_collectConstExpressions\<rparr>,
     \<lparr>kind = Both, fn = P_collectElementConsts\<rparr>,
     \<lparr>kind = Tmpl, fn = P_assignI18nSlotDependencies\<rparr>,
     \<lparr>kind = Both, fn = P_countVariables\<rparr>,
     \<lparr>kind = Tmpl, fn = P_generateAdvance\<rparr>,
     \<lparr>kind = Both, fn = P_optimizeVariables\<rparr>,
     \<lparr>kind = Both, fn = P_nameFunctionsAndVariables\<rparr>,
     \<lparr>kind = Tmpl, fn = P_mergeNextContextExpressions\<rparr>,
     \<lparr>kind = Tmpl, fn = P_generateNgContainerOps\<rparr>,
     \<lparr>kind = Tmpl, fn = P_collapseEmptyInstructions\<rparr>,
     \<lparr>kind = Tmpl, fn = P_disableBindings\<rparr>,
     \<lparr>kind = Both, fn = P_extractPureFunctions\<rparr>,
     \<lparr>kind = Both, fn = P_reify\<rparr>,
     \<lparr>kind = Both, fn = P_chain\<rparr>]"

text \<open>
  \<open>transform\<close>. A phase returns nothing and changes the job in place, or throws;
  \<open>call f job\<close> is the job after the phase \<open>f\<close>, or the error thrown, which ends the loop.
  The state of the loop is the job together with the list of the phase functions called so far
  (a record of the calls, which the code does not keep).
\<close>

fun transform_loop ::
    "(PhaseFn \<Rightarrow> 'j \<Rightarrow> 'e + 'j) \<Rightarrow> CompilationJobKind \<Rightarrow> Phase list \<Rightarrow>
     PhaseFn list \<times> 'j \<Rightarrow> PhaseFn list \<times> ('e + 'j)" where
  "transform_loop call k [] (called, job) = (called, Inr job)"
| "transform_loop call k (phase # rest) (called, job) =
     (if kind phase = k \<or> kind phase = Both
      then (case call (fn phase) job of
              Inl e \<Rightarrow> (called @ [fn phase], Inl e)
            | Inr job' \<Rightarrow> transform_loop call k rest (called @ [fn phase], job'))
      else transform_loop call k rest (called, job))"

definition transform ::
    "(PhaseFn \<Rightarrow> 'j \<Rightarrow> 'e + 'j) \<Rightarrow> 'j \<Rightarrow> CompilationJobKind \<Rightarrow> PhaseFn list \<times> ('e + 'j)" where
  "transform call job k = transform_loop call k phases ([], job)"

text \<open>
  Calling a list of phase functions one after the other on a job, each on the job the one
  before it left, up to the first that throws. It is used to say what \<open>transform\<close> does to
  the job.
\<close>

fun call_in_order :: "(PhaseFn \<Rightarrow> 'j \<Rightarrow> 'e + 'j) \<Rightarrow> PhaseFn list \<Rightarrow> 'j \<Rightarrow> 'e + 'j" where
  "call_in_order call [] job = Inr job"
| "call_in_order call (f # fs) job =
     (case call f job of Inl e \<Rightarrow> Inl e | Inr job' \<Rightarrow> call_in_order call fs job')"

section \<open>Emission (\<open>emit\<close>)\<close>

datatype error =
    AssertionError_view_unnamed XrefId
  | AssertionError_create_op OpKind
  | AssertionError_update_op OpKind
  | AssertionError_host_binding_unnamed

text \<open>
  The loop over a unit's create (or update) list: an operation that is not of the statement
  kind throws the error \<open>err\<close> with its kind, a statement operation has its statement pushed.
  Only a \<open>StatementOp\<close> has the statement kind and the field \<open>statement\<close>.
\<close>

fun collect_statements ::
    "(OpKind \<Rightarrow> error) \<Rightarrow> Op list \<Rightarrow> Statement list \<Rightarrow> error + Statement list" where
  "collect_statements err [] stmts = Inr stmts"
| "collect_statements err (op # ops) stmts =
     (case op of
        StatementOp statement \<Rightarrow> collect_statements err ops (stmts @ [statement])
      | _ \<Rightarrow> Inl (err (op_kind op)))"

definition maybeGenerateRfBlock :: "int \<Rightarrow> Statement list \<Rightarrow> Statement list" where
  "maybeGenerateRfBlock flag stmts =
     (if length stmts = 0 then []
      else [IfStmt (BinaryOperatorExpr BitwiseAnd (ReadVarExpr (js ''rf''))
                      (LiteralExpr (NumberLit flag)))
                   stmts])"

definition emitView :: "CompilationUnit \<Rightarrow> error + FunctionExpr" where
  "emitView view =
     (if fnName view = None then Inl (AssertionError_view_unnamed (xref view))
      else
        (case collect_statements AssertionError_create_op (create view) [] of
           Inl e \<Rightarrow> Inl e
         | Inr createStatements \<Rightarrow>
             (case collect_statements AssertionError_update_op (update view) [] of
                Inl e \<Rightarrow> Inl e
              | Inr updateStatements \<Rightarrow>
                  (let createCond = maybeGenerateRfBlock 1 createStatements;
                       updateCond = maybeGenerateRfBlock 2 updateStatements
                   in Inr \<lparr>fn_params = [FnParam (js ''rf''), FnParam (js ''ctx'')],
                           fn_statements = createCond @ updateCond,
                           fn_name = fnName view\<rparr>))))"







text \<open>\<open>emitHostBindingFunction\<close>: \<open>Inr None\<close> is the \<open>null\<close> result.\<close>

definition emitHostBindingFunction :: "CompilationJob \<Rightarrow> error + FunctionExpr option" where
  "emitHostBindingFunction job =
     (if fnName (root job) = None then Inl AssertionError_host_binding_unnamed
      else
        (case collect_statements AssertionError_create_op (create (root job)) [] of
           Inl e \<Rightarrow> Inl e
         | Inr createStatements \<Rightarrow>
             (case collect_statements AssertionError_update_op (update (root job)) [] of
                Inl e \<Rightarrow> Inl e
              | Inr updateStatements \<Rightarrow>
                  (if length createStatements = 0 \<and> length updateStatements = 0
                   then Inr None
                   else
                     (let createCond = maybeGenerateRfBlock 1 createStatements;
                          updateCond = maybeGenerateRfBlock 2 updateStatements
                      in Inr (Some \<lparr>fn_params = [FnParam (js ''rf''), FnParam (js ''ctx'')],
                                     fn_statements = createCond @ updateCond,
                                     fn_name = fnName (root job)\<rparr>))))))"

section \<open>Concrete inputs\<close>

text \<open>The flag constants used for concrete runs.\<close>

definition Flags0 :: I18nParamValueFlags where
  "Flags0 = \<lparr>ElementTag = 1, TemplateTag = 2, OpenTag = 4, CloseTag = 8\<rparr>"

definition value_self_closing :: I18nParamValue where
  "value_self_closing = \<lparr>raw_value = js ''0'', subTemplateIndex = Some 1, flags = 13\<rparr>"

definition value_close_only :: I18nParamValue where
  "value_close_only = \<lparr>raw_value = js ''0'', subTemplateIndex = None, flags = 8\<rparr>"

definition value_plain :: I18nParamValue where
  "value_plain = \<lparr>raw_value = js ''7'', subTemplateIndex = None, flags = 0\<rparr>"

definition stmt_a :: Statement where
  "stmt_a = ExpressionStatement (ReadVarExpr (js ''a''))"

definition stmt_b :: Statement where
  "stmt_b = ExpressionStatement (ReadVarExpr (js ''b''))"

definition unit_named :: CompilationUnit where
  "unit_named =
     \<lparr>xref = 0, parent = None, fnName = Some (js ''f''),
      create = [StatementOp stmt_a], update = [StatementOp stmt_b]\<rparr>"

definition unit_unnamed :: CompilationUnit where
  "unit_unnamed =
     \<lparr>xref = 0, parent = None, fnName = None,
      create = [StatementOp stmt_a], update = [StatementOp stmt_b]\<rparr>"

definition host_named_empty :: CompilationJob where
  "host_named_empty =
     \<lparr>root = \<lparr>xref = 0, parent = None, fnName = Some (js ''h''), create = [], update = []\<rparr>,
      units = []\<rparr>"

definition host_named_update :: CompilationJob where
  "host_named_update =
     \<lparr>root = \<lparr>xref = 0, parent = None, fnName = Some (js ''h''), create = [],
               update = [StatementOp stmt_b]\<rparr>,
      units = []\<rparr>"

definition host_unnamed_empty :: CompilationJob where
  "host_unnamed_empty =
     \<lparr>root = \<lparr>xref = 0, parent = None, fnName = None, create = [], update = []\<rparr>,
      units = []\<rparr>"

definition message_two_values :: ExtractedMessage where
  "message_two_values =
     \<lparr>isRoot = True,
      params = [(js ''INTERPOLATION'', [value_plain, value_close_only])],
      postprocessingParams = [],
      formattedParams = None,
      formattedPostprocessingParams = None,
      needsPostprocessing = False\<rparr>"

definition job_message :: CompilationJob where
  "job_message =
     \<lparr>root = unit_named,
      units = [\<lparr>xref = 0, parent = None, fnName = None,
                create = [ExtractedMessageOp message_two_values], update = []\<rparr>]\<rparr>"

definition unit_not_lowered :: CompilationUnit where
  "unit_not_lowered =
     \<lparr>xref = 0, parent = None, fnName = Some (js ''f''),
      create = [StatementOp stmt_a], update = [OtherOp 5]\<rparr>"

definition host_unnamed_update :: CompilationJob where
  "host_unnamed_update =
     \<lparr>root = \<lparr>xref = 0, parent = None, fnName = None, create = [],
               update = [StatementOp stmt_b]\<rparr>,
      units = []\<rparr>"

text \<open>
  A phase semantics for concrete runs: the job is the list of the phases that have worked on
  it, and every phase adds itself at the end and returns.
\<close>

definition call_log :: "PhaseFn \<Rightarrow> PhaseFn list \<Rightarrow> unit + PhaseFn list" where
  "call_log f job = Inr (job @ [f])"

definition value_open_close_untagged :: I18nParamValue where
  "value_open_close_untagged = \<lparr>raw_value = js ''0'', subTemplateIndex = None, flags = 12\<rparr>"


definition params_bang :: "(js_string, I18nParamValue list) js_map" where
  "params_bang = [(js ''a'', [value_plain]), (js ''a!'', [value_close_only])]"







section \<open>Serialization of one parameter value\<close>

text \<open>
  The open form and the close form are what \<open>formatValue\<close> returns for a value that is not
  a closing tag, and for a closing tag that is not an opening tag.
\<close>

lemma formatValue_not_close:
  assumes "flags v AND CloseTag F = 0"
  shows "formatValue F v = open_form F v"
  using assms
  by (simp add: formatValue_def open_form_def tag_marker_of_def context_suffix_of_def Let_def)

lemma formatValue_close_not_open:
  assumes "flags v AND CloseTag F \<noteq> 0" and "flags v AND OpenTag F = 0"
  shows "formatValue F v = close_form F v"
  using assms
  by (simp add: formatValue_def close_form_def tag_marker_of_def context_suffix_of_def Let_def
      ELEMENT_MARKER_def TEMPLATE_MARKER_def js_def)

text \<open>
  C5, as stated, fails: for a value whose flags include the open-tag and the close-tag flag
  and neither the element-tag nor the template-tag flag, the second segment that
  \<open>formatValue\<close> returns has no close marker; it is the open form once more.
\<close>

theorem formatValue_self_closing_untagged_no_close_marker:
  "flags value_open_close_untagged AND OpenTag Flags0 \<noteq> 0 \<and>
   flags value_open_close_untagged AND CloseTag Flags0 \<noteq> 0 \<and>
   formatValue Flags0 value_open_close_untagged =
     [0xFFFD] @ js ''0'' @ [0xFFFD] @ [0xFFFD] @ js ''0'' @ [0xFFFD] \<and>
   open_form Flags0 value_open_close_untagged @
   close_form_as_stated Flags0 value_open_close_untagged =
     [0xFFFD] @ js ''0'' @ [0xFFFD] @ [0xFFFD] @ js ''/0'' @ [0xFFFD] \<and>
   formatValue Flags0 value_open_close_untagged \<noteq>
     open_form Flags0 value_open_close_untagged @
     close_form_as_stated Flags0 value_open_close_untagged"
  by (simp add: value_open_close_untagged_def Flags0_def formatValue_def open_form_def
      close_form_as_stated_def tag_marker_of_def context_suffix_of_def ESCAPE_def
      TAG_CLOSE_MARKER_def js_def)

text \<open>
  C5, amended. For every parameter value whose flags include both the open-tag flag and the
  close-tag flag, \<open>formatValue\<close> returns two escape-wrapped segments one after the other: the
  open form (escape, tag marker, raw value, sub-template-index suffix if any, escape) followed
  by the close form. When the value has a tag marker (its flags include the element-tag or the
  template-tag flag), the close form is escape, close marker, tag marker, raw value, suffix if
  any, escape; when it has none, the close form has no close marker and equals the open form.
\<close>

theorem formatValue_self_closing:
  assumes "flags v AND OpenTag F \<noteq> 0" and "flags v AND CloseTag F \<noteq> 0"
  shows "formatValue F v = open_form F v @ close_form F v \<and>
         (tag_marker_of F v \<noteq> [] \<longrightarrow> close_form F v = close_form_as_stated F v) \<and>
         (tag_marker_of F v = [] \<longrightarrow> close_form F v = open_form F v)"
  using assms
  by (simp add: formatValue_def open_form_def close_form_def close_form_as_stated_def
      tag_marker_of_def context_suffix_of_def Let_def ELEMENT_MARKER_def TEMPLATE_MARKER_def
      js_def)

theorem formatValue_self_closing_witness:
  "flags value_self_closing AND OpenTag Flags0 \<noteq> 0 \<and>
   flags value_self_closing AND CloseTag Flags0 \<noteq> 0 \<and>
   tag_marker_of Flags0 value_self_closing \<noteq> [] \<and>
   formatValue Flags0 value_self_closing =
     open_form Flags0 value_self_closing @ close_form_as_stated Flags0 value_self_closing \<and>
   formatValue Flags0 value_self_closing =
     [0xFFFD] @ js ''#0:1'' @ [0xFFFD] @ [0xFFFD] @ js ''/#0:1'' @ [0xFFFD] \<and>
   flags value_open_close_untagged AND OpenTag Flags0 \<noteq> 0 \<and>
   flags value_open_close_untagged AND CloseTag Flags0 \<noteq> 0 \<and>
   tag_marker_of Flags0 value_open_close_untagged = [] \<and>
   formatValue Flags0 value_open_close_untagged =
     open_form Flags0 value_open_close_untagged @ open_form Flags0 value_open_close_untagged"
proof -
  have h1: "flags value_self_closing AND OpenTag Flags0 \<noteq> 0"
    by (simp add: value_self_closing_def Flags0_def)
  have h2: "flags value_self_closing AND CloseTag Flags0 \<noteq> 0"
    by (simp add: value_self_closing_def Flags0_def)
  have t1: "tag_marker_of Flags0 value_self_closing \<noteq> []"
    by (simp add: tag_marker_of_def value_self_closing_def Flags0_def ELEMENT_MARKER_def js_def)
  have r1: "formatValue Flags0 value_self_closing =
      open_form Flags0 value_self_closing @ close_form_as_stated Flags0 value_self_closing"
    using formatValue_self_closing [OF h1 h2] t1 by simp
  have e1: "open_form Flags0 value_self_closing @ close_form_as_stated Flags0 value_self_closing =
      [0xFFFD] @ js ''#0:1'' @ [0xFFFD] @ [0xFFFD] @ js ''/#0:1'' @ [0xFFFD]"
    by (simp add: open_form_def close_form_as_stated_def tag_marker_of_def
        context_suffix_of_def value_self_closing_def Flags0_def ESCAPE_def ELEMENT_MARKER_def
        TAG_CLOSE_MARKER_def CONTEXT_MARKER_def js_def Number_toString.simps)
  have h3: "flags value_open_close_untagged AND OpenTag Flags0 \<noteq> 0"
    by (simp add: value_open_close_untagged_def Flags0_def)
  have h4: "flags value_open_close_untagged AND CloseTag Flags0 \<noteq> 0"
    by (simp add: value_open_close_untagged_def Flags0_def)
  have t2: "tag_marker_of Flags0 value_open_close_untagged = []"
    by (simp add: tag_marker_of_def value_open_close_untagged_def Flags0_def)
  have r2: "formatValue Flags0 value_open_close_untagged =
      open_form Flags0 value_open_close_untagged @ open_form Flags0 value_open_close_untagged"
    using formatValue_self_closing [OF h3 h4] t2 by simp
  from h1 h2 t1 r1 e1 h3 h4 t2 r2 show ?thesis by simp
qed

text \<open>
  C9. For every parameter value whose flags include the close-tag flag and include none of the
  element-tag, template-tag and open-tag flags, \<open>formatValue\<close> emits no close-tag marker: the
  result is the escape character, the raw value, the sub-template-index suffix if any, and the
  escape character.
\<close>

theorem formatValue_close_without_tag:
  assumes "flags v AND CloseTag F \<noteq> 0"
    and "flags v AND ElementTag F = 0"
    and "flags v AND TemplateTag F = 0"
    and "flags v AND OpenTag F = 0"
  shows "formatValue F v = ESCAPE @ raw_value v @ context_suffix_of v @ ESCAPE"
  using assms by (simp add: formatValue_def context_suffix_of_def Let_def)

theorem formatValue_close_without_tag_witness:
  "flags value_close_only AND CloseTag Flags0 \<noteq> 0 \<and>
   flags value_close_only AND ElementTag Flags0 = 0 \<and>
   flags value_close_only AND TemplateTag Flags0 = 0 \<and>
   flags value_close_only AND OpenTag Flags0 = 0 \<and>
   formatValue Flags0 value_close_only = [0xFFFD] @ js ''0'' @ [0xFFFD]"
proof -
  have h1: "flags value_close_only AND CloseTag Flags0 \<noteq> 0"
    by (simp add: value_close_only_def Flags0_def)
  have h2: "flags value_close_only AND ElementTag Flags0 = 0"
    by (simp add: value_close_only_def Flags0_def)
  have h3: "flags value_close_only AND TemplateTag Flags0 = 0"
    by (simp add: value_close_only_def Flags0_def)
  have h4: "flags value_close_only AND OpenTag Flags0 = 0"
    by (simp add: value_close_only_def Flags0_def)
  have "ESCAPE @ raw_value value_close_only @ context_suffix_of value_close_only @ ESCAPE =
      [0xFFFD] @ js ''0'' @ [0xFFFD]"
    by (simp add: context_suffix_of_def value_close_only_def ESCAPE_def)
  with h1 h2 h3 h4 formatValue_close_without_tag [OF h1 h2 h3 h4] show ?thesis by simp
qed

section \<open>The needs-postprocessing flag\<close>

lemma needsPostprocessing_fold:
  "fold (\<lambda>(param, vals) np. if length vals > 1 then True else np) ps b \<longleftrightarrow>
     b \<or> (\<exists>e\<in>set ps. length (snd e) > 1)"
  by (induction ps arbitrary: b) (auto split: prod.splits)

lemma needsPostprocessing_message:
  "needsPostprocessing (formatI18nParams_message F m) \<longleftrightarrow>
     length (postprocessingParams m) > 0 \<or> (\<exists>e\<in>set (params m). length (snd e) > 1)"
  unfolding formatI18nParams_message_def needsPostprocessing_fold by simp

text \<open>
  C6. For every root extracted-message operation in the create list of a unit of the job, after
  \<open>formatI18nParams\<close> the operation at the same place is the message with its
  needs-postprocessing flag true if and only if some placeholder of its params map has more
  than one value or its postprocessing-params map is not empty.
\<close>

theorem formatI18nParams_needsPostprocessing:
  assumes "j < length (units job)"
    and "i < length (create (units job ! j))"
    and "create (units job ! j) ! i = ExtractedMessageOp m"
    and "isRoot m"
  shows "\<exists>m'. create (units (formatI18nParams F job) ! j) ! i = ExtractedMessageOp m' \<and>
     (needsPostprocessing m' \<longleftrightarrow>
        (\<exists>e\<in>set (params m). length (snd e) > 1) \<or> length (postprocessingParams m) > 0)"
proof -
  have "create (units (formatI18nParams F job) ! j) ! i =
      ExtractedMessageOp (formatI18nParams_message F m)"
    using assms by (simp add: formatI18nParams_def formatI18nParams_unit_def)
  then show ?thesis
    using needsPostprocessing_message [of F m] by blast
qed

theorem formatI18nParams_needsPostprocessing_witness:
  "0 < length (units job_message) \<and>
   0 < length (create (units job_message ! 0)) \<and>
   create (units job_message ! 0) ! 0 = ExtractedMessageOp message_two_values \<and>
   isRoot message_two_values \<and>
   (\<exists>m'. create (units (formatI18nParams Flags0 job_message) ! 0) ! 0 = ExtractedMessageOp m' \<and>
      needsPostprocessing m')"
proof -
  have h1: "0 < length (units job_message)"
    by (simp add: job_message_def)
  have h2: "0 < length (create (units job_message ! 0))"
    by (simp add: job_message_def)
  have h3: "create (units job_message ! 0) ! 0 = ExtractedMessageOp message_two_values"
    by (simp add: job_message_def)
  have h4: "isRoot message_two_values"
    by (simp add: message_two_values_def)
  have many: "\<exists>e\<in>set (params message_two_values). length (snd e) > 1"
    by (simp add: message_two_values_def)
  from formatI18nParams_needsPostprocessing [OF h1 h2 h3 h4, of Flags0] many
  have "\<exists>m'. create (units (formatI18nParams Flags0 job_message) ! 0) ! 0 =
      ExtractedMessageOp m' \<and> needsPostprocessing m'"
    by blast
  with h1 h2 h3 h4 show ?thesis by blast
qed

section \<open>Emission of one view\<close>

lemma op_kind_Statement_iff: "op_kind op = OpKind_Statement \<longleftrightarrow> (\<exists>s. op = StatementOp s)"
  by (cases op) simp_all

lemma collect_statements_Inr_iff:
  "(\<exists>stmts'. collect_statements err ops stmts = Inr stmts') \<longleftrightarrow>
   (\<forall>op\<in>set ops. op_kind op = OpKind_Statement)"
  by (induction ops arbitrary: stmts) (auto split: Op.splits)

lemma collect_statements_length:
  "collect_statements err ops stmts = Inr stmts' \<Longrightarrow> length stmts' = length stmts + length ops"
  by (induction ops arbitrary: stmts) (auto split: Op.splits)

lemma emitView_Inr_iff:
  "(\<exists>f. emitView view = Inr f) \<longleftrightarrow>
   (fnName view \<noteq> None \<and>
    (\<forall>op\<in>set (create view) \<union> set (update view). op_kind op = OpKind_Statement))"
proof -
  have c: "(\<exists>s. collect_statements AssertionError_create_op (create view) [] = Inr s) \<longleftrightarrow>
      (\<forall>op\<in>set (create view). op_kind op = OpKind_Statement)"
    by (rule collect_statements_Inr_iff)
  have u: "(\<exists>s. collect_statements AssertionError_update_op (update view) [] = Inr s) \<longleftrightarrow>
      (\<forall>op\<in>set (update view). op_kind op = OpKind_Statement)"
    by (rule collect_statements_Inr_iff)
  show ?thesis
    unfolding emitView_def Let_def using c u
    by (auto split: sum.splits)
qed

text \<open>
  C1, as stated, fails: a unit whose create and update lists hold only statement operations,
  and which has no function name, makes \<open>emitView\<close> throw the unnamed-view assertion.
\<close>

theorem emitView_lowered_unnamed_fails:
  "create unit_unnamed = [StatementOp stmt_a] \<and>
   update unit_unnamed = [StatementOp stmt_b] \<and>
   op_kind (StatementOp stmt_a) = OpKind_Statement \<and>
   op_kind (StatementOp stmt_b) = OpKind_Statement \<and>
   emitView unit_unnamed = Inl (AssertionError_view_unnamed 0)"
  by (simp add: unit_unnamed_def emitView_def)

text \<open>
  C1, amended. For every view compilation unit, \<open>emitView\<close> fails when any operation of the
  unit's create list or update list has a kind other than the statement kind; and on a unit
  that has a function name and whose create and update lists hold only statement operations
  it does not fail.
\<close>

theorem emitView_completeness:
  "((\<exists>op\<in>set (create view) \<union> set (update view). op_kind op \<noteq> OpKind_Statement) \<longrightarrow>
      (\<exists>e. emitView view = Inl e)) \<and>
   (fnName view \<noteq> None \<and>
    (\<forall>op\<in>set (create view) \<union> set (update view). op_kind op = OpKind_Statement) \<longrightarrow>
      (\<exists>f. emitView view = Inr f))"
proof -
  have "\<exists>e. emitView view = Inl e"
    if "\<exists>op\<in>set (create view) \<union> set (update view). op_kind op \<noteq> OpKind_Statement"
  proof (cases "emitView view")
    case (Inl e)
    then show ?thesis by blast
  next
    case (Inr f)
    then have "\<forall>op\<in>set (create view) \<union> set (update view). op_kind op = OpKind_Statement"
      using emitView_Inr_iff [of view] by blast
    with that show ?thesis by blast
  qed
  then show ?thesis
    using emitView_Inr_iff [of view] by blast
qed

theorem emitView_completeness_witness:
  "fnName unit_named \<noteq> None \<and>
   create unit_named = [StatementOp stmt_a] \<and>
   update unit_named = [StatementOp stmt_b] \<and>
   (\<exists>f. emitView unit_named = Inr f) \<and>
   update unit_not_lowered = [OtherOp 5] \<and>
   op_kind (OtherOp 5) \<noteq> OpKind_Statement \<and>
   (\<exists>e. emitView unit_not_lowered = Inl e)"
proof -
  have n: "fnName unit_named \<noteq> None"
    and c: "create unit_named = [StatementOp stmt_a]"
    and u: "update unit_named = [StatementOp stmt_b]"
    by (simp_all add: unit_named_def)
  have all: "\<forall>op\<in>set (create unit_named) \<union> set (update unit_named).
      op_kind op = OpKind_Statement"
    by (simp add: c u)
  have ok: "\<exists>f. emitView unit_named = Inr f"
    using emitView_completeness [of unit_named] n all by blast
  have u': "update unit_not_lowered = [OtherOp 5]"
    by (simp add: unit_not_lowered_def)
  have k: "op_kind (OtherOp 5) \<noteq> OpKind_Statement"
    by simp
  have some: "\<exists>op\<in>set (create unit_not_lowered) \<union> set (update unit_not_lowered).
      op_kind op \<noteq> OpKind_Statement"
    by (simp add: u')
  have bad: "\<exists>e. emitView unit_not_lowered = Inl e"
    using emitView_completeness [of unit_not_lowered] some by blast
  from n c u ok u' k bad show ?thesis by blast
qed

section \<open>Emission of a host binding function\<close>

lemma emitHostBindingFunction_null_iff:
  "emitHostBindingFunction job = Inr None \<longleftrightarrow>
   fnName (root job) \<noteq> None \<and> create (root job) = [] \<and> update (root job) = []"
  unfolding emitHostBindingFunction_def Let_def
  by (auto split: sum.splits dest: collect_statements_length)

lemma emitHostBindingFunction_fn_iff:
  "(\<exists>f. emitHostBindingFunction job = Inr (Some f)) \<longleftrightarrow>
   fnName (root job) \<noteq> None \<and>
   (\<forall>op\<in>set (create (root job)) \<union> set (update (root job)). op_kind op = OpKind_Statement) \<and>
   (create (root job) \<noteq> [] \<or> update (root job) \<noteq> [])"
proof -
  have c: "(\<exists>s. collect_statements AssertionError_create_op (create (root job)) [] = Inr s) \<longleftrightarrow>
      (\<forall>op\<in>set (create (root job)). op_kind op = OpKind_Statement)"
    by (rule collect_statements_Inr_iff)
  have u: "(\<exists>s. collect_statements AssertionError_update_op (update (root job)) [] = Inr s) \<longleftrightarrow>
      (\<forall>op\<in>set (update (root job)). op_kind op = OpKind_Statement)"
    by (rule collect_statements_Inr_iff)
  show ?thesis
    unfolding emitHostBindingFunction_def Let_def using c u
    by (auto split: sum.splits dest: collect_statements_length)
qed

text \<open>
  C7, as stated, fails: on a host-binding job whose create and update lists are both empty and
  whose root unit has no function name, \<open>emitHostBindingFunction\<close> does not return null; it
  throws.
\<close>

theorem emitHostBindingFunction_empty_not_null:
  "create (root host_unnamed_empty) = [] \<and>
   update (root host_unnamed_empty) = [] \<and>
   emitHostBindingFunction host_unnamed_empty \<noteq> Inr None \<and>
   emitHostBindingFunction host_unnamed_empty = Inl AssertionError_host_binding_unnamed"
  by (simp add: host_unnamed_empty_def emitHostBindingFunction_def)

text \<open>
  C7, amended. For every host-binding job whose root unit has a function name,
  \<open>emitHostBindingFunction\<close> returns null exactly when the create list and the update list
  are both empty; when at least one of them is not empty and all their operations are statement
  operations, it returns a function expression.
\<close>

theorem emitHostBindingFunction_null_exactly_when_empty:
  assumes "fnName (root job) \<noteq> None"
  shows "(emitHostBindingFunction job = Inr None \<longleftrightarrow>
            create (root job) = [] \<and> update (root job) = []) \<and>
         ((create (root job) \<noteq> [] \<or> update (root job) \<noteq> []) \<and>
          (\<forall>op\<in>set (create (root job)) \<union> set (update (root job)).
             op_kind op = OpKind_Statement) \<longrightarrow>
            (\<exists>f. emitHostBindingFunction job = Inr (Some f)))"
  using assms emitHostBindingFunction_null_iff [of job] emitHostBindingFunction_fn_iff [of job]
  by blast

theorem emitHostBindingFunction_null_exactly_when_empty_witness:
  "fnName (root host_named_empty) \<noteq> None \<and>
   create (root host_named_empty) = [] \<and>
   update (root host_named_empty) = [] \<and>
   emitHostBindingFunction host_named_empty = Inr None \<and>
   fnName (root host_named_update) \<noteq> None \<and>
   update (root host_named_update) = [StatementOp stmt_b] \<and>
   (\<exists>f. emitHostBindingFunction host_named_update = Inr (Some f))"
proof -
  have n1: "fnName (root host_named_empty) \<noteq> None"
    and c1: "create (root host_named_empty) = []"
    and u1: "update (root host_named_empty) = []"
    by (simp_all add: host_named_empty_def)
  have r1: "emitHostBindingFunction host_named_empty = Inr None"
    using emitHostBindingFunction_null_exactly_when_empty [OF n1] c1 u1 by blast
  have n2: "fnName (root host_named_update) \<noteq> None"
    and c2: "create (root host_named_update) = []"
    and u2: "update (root host_named_update) = [StatementOp stmt_b]"
    by (simp_all add: host_named_update_def)
  have all: "\<forall>op\<in>set (create (root host_named_update)) \<union> set (update (root host_named_update)).
      op_kind op = OpKind_Statement"
    by (simp add: c2 u2)
  have ne: "create (root host_named_update) \<noteq> [] \<or> update (root host_named_update) \<noteq> []"
    by (simp add: u2)
  have r2: "\<exists>f. emitHostBindingFunction host_named_update = Inr (Some f)"
    using emitHostBindingFunction_null_exactly_when_empty [OF n2] all ne by blast
  from n1 c1 u1 r1 n2 u2 r2 show ?thesis by blast
qed

text \<open>
  C10. For every host-binding job whose root unit has a null function name,
  \<open>emitHostBindingFunction\<close> fails with the unnamed-function assertion, whatever the create
  and update lists hold, also when both are empty: the assertion comes before the null return.
\<close>

theorem emitHostBindingFunction_unnamed_fails:
  assumes "fnName (root job) = None"
  shows "emitHostBindingFunction job = Inl AssertionError_host_binding_unnamed"
  using assms by (simp add: emitHostBindingFunction_def)

theorem emitHostBindingFunction_unnamed_fails_witness:
  "fnName (root host_unnamed_update) = None \<and>
   emitHostBindingFunction host_unnamed_update = Inl AssertionError_host_binding_unnamed \<and>
   fnName (root host_unnamed_empty) = None \<and>
   create (root host_unnamed_empty) = [] \<and>
   update (root host_unnamed_empty) = [] \<and>
   emitHostBindingFunction host_unnamed_empty = Inl AssertionError_host_binding_unnamed"
proof -
  have h1: "fnName (root host_unnamed_update) = None"
    by (simp add: host_unnamed_update_def)
  have h2: "fnName (root host_unnamed_empty) = None"
    and c: "create (root host_unnamed_empty) = []"
    and u: "update (root host_unnamed_empty) = []"
    by (simp_all add: host_unnamed_empty_def)
  from h1 h2 c u
    emitHostBindingFunction_unnamed_fails [OF h1]
    emitHostBindingFunction_unnamed_fails [OF h2]
  show ?thesis by blast
qed

section \<open>The pipeline driver\<close>

lemma transform_loop_called:
  "snd (transform_loop call k ps (called, job)) = Inr job' \<Longrightarrow>
   fst (transform_loop call k ps (called, job)) =
     called @ map fn (filter (\<lambda>p. kind p = k \<or> kind p = Both) ps)"
  by (induction ps arbitrary: called job) (auto split: sum.splits)

lemma transform_loop_prefix:
  "prefix (fst (transform_loop call k ps (called, job)))
     (called @ map fn (filter (\<lambda>p. kind p = k \<or> kind p = Both) ps))"
proof (induction ps arbitrary: called job)
  case Nil
  then show ?case by simp
next
  case (Cons p ps)
  show ?case
  proof (cases "kind p = k \<or> kind p = Both")
    case True
    show ?thesis
    proof (cases "call (fn p) job")
      case (Inl e)
      with True show ?thesis by (auto simp: prefix_def)
    next
      case (Inr job1)
      with True Cons.IH [of "called @ [fn p]" job1] show ?thesis by auto
    qed
  next
    case False
    with Cons.IH [of called job] show ?thesis by auto
  qed
qed

lemma distinct_phases: "distinct (map fn phases)"
  by (simp add: phases_def)

lemma transform_loop_result:
  "snd (transform_loop call k ps (called, job)) =
     call_in_order call (map fn (filter (\<lambda>p. kind p = k \<or> kind p = Both) ps)) job"
  by (induction ps arbitrary: called job) (auto split: sum.splits)

text \<open>
  C2. For every job kind, \<open>transform\<close> invokes the registered phases whose kind equals the
  job kind or is \<open>Both\<close>, each once, in the order of the phase list: what it does to the job
  (the job it leaves, or the error it ends with) is what calling exactly these phase functions
  one after the other in that order does, each on the job the one before it left. The calls
  made are always an initial part of that list (a phase that throws ends the run), they are
  the whole of it when \<open>transform\<close> returns, and no phase function is called twice.
\<close>

theorem transform_calls_applicable_phases_in_order:
  "snd (transform call job k) =
     call_in_order call (map fn (filter (\<lambda>p. kind p = k \<or> kind p = Both) phases)) job \<and>
   prefix (fst (transform call job k))
     (map fn (filter (\<lambda>p. kind p = k \<or> kind p = Both) phases)) \<and>
   (\<forall>job'. snd (transform call job k) = Inr job' \<longrightarrow>
      fst (transform call job k) =
        map fn (filter (\<lambda>p. kind p = k \<or> kind p = Both) phases)) \<and>
   distinct (map fn (filter (\<lambda>p. kind p = k \<or> kind p = Both) phases)) \<and>
   distinct (fst (transform call job k))"
proof -
  let ?app = "map fn (filter (\<lambda>p. kind p = k \<or> kind p = Both) phases)"
  have s: "snd (transform call job k) = call_in_order call ?app job"
    using transform_loop_result [of call k phases "[]" job] by (simp add: transform_def)
  have p: "prefix (fst (transform call job k)) ?app"
    using transform_loop_prefix [of call k phases "[]" job] by (simp add: transform_def)
  have e: "\<forall>job'. snd (transform call job k) = Inr job' \<longrightarrow> fst (transform call job k) = ?app"
    using transform_loop_called [of call k phases "[]" job] by (simp add: transform_def)
  have d: "distinct ?app"
    using distinct_phases by (rule distinct_map_filter)
  with p have "distinct (fst (transform call job k))"
    by (auto simp: prefix_def)
  with s p e d show ?thesis by simp
qed

theorem transform_calls_applicable_phases_in_order_witness:
  "snd (transform call_log [] Host) =
     Inr [P_parseHostStyleProperties, P_specializeStyleBindings, P_specializeBindings,
      P_extractAttributes, P_parseExtractedStyles, P_collapseSingletonInterpolations,
      P_orderOps, P_generatePureLiteralStructures, P_resolveDollarEvent, P_resolveNames,
      P_resolveContexts, P_generateNullishCoalesceExpressions, P_expandSafeReads,
      P_generateTemporaryVariables, P_collectElementConsts, P_countVariables,
      P_optimizeVariables, P_nameFunctionsAndVariables, P_extractPureFunctions, P_reify,
      P_chain] \<and>
   fst (transform call_log [] Host) =
     [P_parseHostStyleProperties, P_specializeStyleBindings, P_specializeBindings,
      P_extractAttributes, P_parseExtractedStyles, P_collapseSingletonInterpolations,
      P_orderOps, P_generatePureLiteralStructures, P_resolveDollarEvent, P_resolveNames,
      P_resolveContexts, P_generateNullishCoalesceExpressions, P_expandSafeReads,
      P_generateTemporaryVariables, P_collectElementConsts, P_countVariables,
      P_optimizeVariables, P_nameFunctionsAndVariables, P_extractPureFunctions, P_reify,
      P_chain]"
proof -
  have a: "map fn (filter (\<lambda>p. kind p = Host \<or> kind p = Both) phases) =
     [P_parseHostStyleProperties, P_specializeStyleBindings, P_specializeBindings,
      P_extractAttributes, P_parseExtractedStyles, P_collapseSingletonInterpolations,
      P_orderOps, P_generatePureLiteralStructures, P_resolveDollarEvent, P_resolveNames,
      P_resolveContexts, P_generateNullishCoalesceExpressions, P_expandSafeReads,
      P_generateTemporaryVariables, P_collectElementConsts, P_countVariables,
      P_optimizeVariables, P_nameFunctionsAndVariables, P_extractPureFunctions, P_reify,
      P_chain]"
    by (simp add: phases_def)
  have c: "call_in_order call_log
     [P_parseHostStyleProperties, P_specializeStyleBindings, P_specializeBindings,
      P_extractAttributes, P_parseExtractedStyles, P_collapseSingletonInterpolations,
      P_orderOps, P_generatePureLiteralStructures, P_resolveDollarEvent, P_resolveNames,
      P_resolveContexts, P_generateNullishCoalesceExpressions, P_expandSafeReads,
      P_generateTemporaryVariables, P_collectElementConsts, P_countVariables,
      P_optimizeVariables, P_nameFunctionsAndVariables, P_extractPureFunctions, P_reify,
      P_chain] [] =
     Inr [P_parseHostStyleProperties, P_specializeStyleBindings, P_specializeBindings,
      P_extractAttributes, P_parseExtractedStyles, P_collapseSingletonInterpolations,
      P_orderOps, P_generatePureLiteralStructures, P_resolveDollarEvent, P_resolveNames,
      P_resolveContexts, P_generateNullishCoalesceExpressions, P_expandSafeReads,
      P_generateTemporaryVariables, P_collectElementConsts, P_countVariables,
      P_optimizeVariables, P_nameFunctionsAndVariables, P_extractPureFunctions, P_reify,
      P_chain]"
    by (simp add: call_log_def)
  from transform_calls_applicable_phases_in_order [of call_log "[]" Host]
  have s: "snd (transform call_log [] Host) =
      call_in_order call_log
        (map fn (filter (\<lambda>p. kind p = Host \<or> kind p = Both) phases)) []"
    and e: "\<forall>job'. snd (transform call_log [] Host) = Inr job' \<longrightarrow>
      fst (transform call_log [] Host) =
        map fn (filter (\<lambda>p. kind p = Host \<or> kind p = Both) phases)"
    by blast+
  from s a c have r: "snd (transform call_log [] Host) =
     Inr [P_parseHostStyleProperties, P_specializeStyleBindings, P_specializeBindings,
      P_extractAttributes, P_parseExtractedStyles, P_collapseSingletonInterpolations,
      P_orderOps, P_generatePureLiteralStructures, P_resolveDollarEvent, P_resolveNames,
      P_resolveContexts, P_generateNullishCoalesceExpressions, P_expandSafeReads,
      P_generateTemporaryVariables, P_collectElementConsts, P_countVariables,
      P_optimizeVariables, P_nameFunctionsAndVariables, P_extractPureFunctions, P_reify,
      P_chain]"
    by simp
  with e a have "fst (transform call_log [] Host) =
     [P_parseHostStyleProperties, P_specializeStyleBindings, P_specializeBindings,
      P_extractAttributes, P_parseExtractedStyles, P_collapseSingletonInterpolations,
      P_orderOps, P_generatePureLiteralStructures, P_resolveDollarEvent, P_resolveNames,
      P_resolveContexts, P_generateNullishCoalesceExpressions, P_expandSafeReads,
      P_generateTemporaryVariables, P_collectElementConsts, P_countVariables,
      P_optimizeVariables, P_nameFunctionsAndVariables, P_extractPureFunctions, P_reify,
      P_chain]"
    by simp
  with r show ?thesis by simp
qed

section \<open>Formatting a map of parameters\<close>

lemma Map_set_fresh: "k \<notin> fst ` set m \<Longrightarrow> Map_set m k v = m @ [(k, v)]"
  by (induction m) auto

lemma formatParamValues_None_iff: "formatParamValues F vs = None \<longleftrightarrow> vs = []"
  by (simp add: formatParamValues_def Let_def)


lemma fold_formatParams:
  "distinct (map fst es) \<Longrightarrow> fst ` set acc \<inter> fst ` set es = {} \<Longrightarrow>
   fold (\<lambda>(placeholder, placeholderValues) result.
           (case formatParamValues F placeholderValues of
              None \<Rightarrow> result
            | Some serializedValues \<Rightarrow>
                Map_set result placeholder
                  (literal (formatParamValues F placeholderValues))))
        es acc =
   acc @ formatted_entries F es"
proof (induction es arbitrary: acc)
  case Nil
  then show ?case by (simp add: formatted_entries_def)
next
  case (Cons e es)
  obtain k vs where e: "e = (k, vs)" by (cases e)
  have d: "distinct (map fst es)" using Cons.prems by simp
  show ?case
  proof (cases "vs = []")
    case True
    have "formatParamValues F [] = None" by (simp add: formatParamValues_def)
    moreover have "fst ` set acc \<inter> fst ` set es = {}" using Cons.prems by auto
    ultimately show ?thesis using Cons.IH [of acc] d e True
      by (simp add: formatted_entries_def)
  next
    case False
    then obtain s where s: "formatParamValues F vs = Some s"
      using formatParamValues_None_iff [of F vs] by auto
    have fresh: "k \<notin> fst ` set acc" using Cons.prems e by auto
    have disj: "fst ` set (acc @ [(k, literal (Some s))]) \<inter> fst ` set es = {}"
      using Cons.prems e by auto
    show ?thesis
      using Cons.IH [OF d disj] False e s fresh
      by (simp add: Map_set_fresh formatted_entries_def)
  qed
qed

lemma distinct_keys_Array_sort:
  assumes "distinct (map fst es)"
  shows "distinct (map fst (Array_sort es))"
proof -
  have "mset (map fst (Array_sort es)) = mset (map fst es)"
    by (simp add: Array_sort_def)
  with assms show ?thesis
    using mset_eq_imp_distinct_iff by blast
qed

lemma formatParams_entries:
  "distinct (map fst ps) \<Longrightarrow> formatParams F ps = formatted_entries F (Array_sort ps)"
  using fold_formatParams [of "Array_sort ps" "[]" F] distinct_keys_Array_sort [of ps]
  by (simp add: formatParams_def)





lemma lexord_key_le:
  fixes k1 k2 :: "('a::linorder) list"
  assumes "\<forall>x\<in>set k1. c < x"
  shows "k1 @ c # r1 \<le> k2 @ c # r2 \<Longrightarrow> \<forall>x\<in>set k2. c < x \<Longrightarrow> k1 \<le> k2"
  using assms
proof (induction k1 arbitrary: k2)
  case Nil
  then show ?case by simp
next
  case (Cons a k1)
  show ?case
  proof (cases k2)
    case Nil
    with Cons.prems show ?thesis by auto
  next
    case (Cons b k2')
    with Cons.prems Cons.IH [of k2'] show ?thesis by auto
  qed
qed

lemma entry_toString_Cons:
  "entry_toString (k, vs) = k @ 44 # join (map (\<lambda>v. js ''[object Object]'') vs) (js '','')"
  by (simp add: entry_toString_def js_def)

lemma sorted_keys_Array_sort:
  assumes "\<forall>k\<in>fst ` set ps. \<forall>c\<in>set k. 44 < c"
  shows "sorted (map fst (Array_sort ps))"
proof -
  have "sorted (map entry_toString (Array_sort ps))"
    by (simp add: Array_sort_def)
  then have "sorted_wrt (\<lambda>a b. entry_toString a \<le> entry_toString b) (Array_sort ps)"
    by (simp add: sorted_map)
  then have "sorted_wrt (\<lambda>a b. fst a \<le> fst b) (Array_sort ps)"
  proof (rule sorted_wrt_mono_rel [rotated])
    fix a b
    assume a: "a \<in> set (Array_sort ps)" and b: "b \<in> set (Array_sort ps)"
      and le: "entry_toString a \<le> entry_toString b"
    have ka: "\<forall>c\<in>set (fst a). 44 < c"
      using a assms by (auto simp: Array_sort_def)
    have kb: "\<forall>c\<in>set (fst b). 44 < c"
      using b assms by (auto simp: Array_sort_def)
    from le show "fst a \<le> fst b"
      using lexord_key_le [OF ka _ kb] by (cases a; cases b) (auto simp: entry_toString_Cons)
  qed
  then show ?thesis by (simp add: sorted_map)
qed

text \<open>
  The default sort agrees with the order of the keys where no key holds a code unit up to the
  comma (U+002C).
\<close>

lemma formatParams_keys_sorted_above_comma:
  assumes "distinct (map fst ps)" and "\<forall>k\<in>fst ` set ps. \<forall>c\<in>set k. 44 < c"
  shows "sorted (map fst (formatParams F ps))"
proof -
  have "map fst (formatted_entries F (Array_sort ps)) =
      map fst (filter (\<lambda>(k, vs). vs \<noteq> []) (Array_sort ps))"
    by (simp add: formatted_entries_def case_prod_beta)
  moreover have "sorted (map fst (filter (\<lambda>(k, vs). vs \<noteq> []) (Array_sort ps)))"
    using sorted_keys_Array_sort [OF assms(2)] by (simp add: sorted_map sorted_wrt_filter)
  ultimately show ?thesis
    using assms(1) by (simp add: formatParams_entries)
qed

text \<open>
  C4. The formatted map is to enumerate its entries in sorted placeholder-key order; the code
  does not. The entries are sorted by \<open>sort()\<close> without a comparison function, that is by the
  string conversion of the whole entry, the key followed by a comma and the values. For the map
  with the keys \<open>a\<close> and \<open>a!\<close> the conversions start with \<open>a,\<close> and \<open>a!,\<close>; since \<open>!\<close>
  comes before the comma, \<open>formatParams\<close> puts the entry of \<open>a!\<close> first, although the key
  \<open>a\<close> is the smaller one.
\<close>

theorem formatParams_keys_not_sorted:
  "distinct (map fst params_bang) \<and>
   map fst params_bang = [js ''a'', js ''a!''] \<and>
   js ''a'' < js ''a!'' \<and>
   map fst (formatParams Flags0 params_bang) = [js ''a!'', js ''a''] \<and>
   \<not> sorted (map fst (formatParams Flags0 params_bang))"
  by (simp add: params_bang_def formatParams_def Array_sort_def entry_toString_def js_def
      formatParamValues_def)

section \<open>Emission of a template function\<close>










end
